theory Spec2Isabelle
  imports Main
begin

section \<open>Export of trained models: the dispatcher of \<^verbatim>\<open>model_export.py\<close>\<close>

text \<open>
  The module \<^verbatim>\<open>model_export.py\<close> creates the directory \<^verbatim>\<open>models\<close> when it is loaded,
  defines one exporter per framework and a dispatcher \<^verbatim>\<open>export_model\<close> that selects an
  exporter by a string tag. Each exporter is a fixed sequence of calls into a third-party
  library. The libraries are not part of the repository: a call's outcome (the content it
  writes or returns, or the exception it raises) is a parameter of the model, and it may
  depend on the whole world the call runs in.
\<close>

subsection \<open>Values, exceptions, library calls\<close>

text \<open>
  A Python value passed to the module is a string or an opaque object (a model handle, a
  sample tensor, or anything else a caller binds to \<^verbatim>\<open>name\<close>).
\<close>

datatype 'o pyval = PStr string | PObj 'o

text \<open>
  The exceptions a call of the module can end with: the \<^verbatim>\<open>TypeError\<close> of Python's argument
  binding, the \<^verbatim>\<open>KeyError\<close> of a dictionary lookup, the \<^verbatim>\<open>ValueError\<close> the dispatcher
  raises with its message, and any exception \<open>'x\<close> raised inside a library call.
\<close>

datatype 'x error = TypeError | KeyError string | ValueError string | LibError 'x

text \<open>
  The library calls of the module, with the arguments the source passes:
  \<^item> \<open>Makedirs p\<close>: the directory creation inside \<^verbatim>\<open>os.makedirs(p, exist_ok=True)\<close>;
  \<^item> \<open>JoblibDump m p\<close>: \<^verbatim>\<open>joblib.dump(m, p)\<close>;
  \<^item> \<open>TorchSaveStateDict m p\<close>: \<^verbatim>\<open>torch.save(m.state_dict(), p)\<close>;
  \<^item> \<open>TorchOnnxExport m s p\<close>: \<^verbatim>\<open>torch.onnx.export(m, s, p, export_params=True,
    opset_version=12, do_constant_folding=True)\<close>;
  \<^item> \<open>SaveModel m p\<close>: \<^verbatim>\<open>m.save_model(p)\<close>;
  \<^item> \<open>KerasSave m p\<close>: \<^verbatim>\<open>m.save(p)\<close>;
  \<^item> \<open>KerasSaveTf m p\<close>: \<^verbatim>\<open>m.save(p, save_format="tf")\<close>;
  \<^item> \<open>TFLiteConvert m\<close>: \<^verbatim>\<open>tf.lite.TFLiteConverter.from_keras_model(m).convert()\<close>,
    which returns the bytes of the converted model and writes nothing;
  \<^item> \<open>OpenWrite p d\<close>: \<^verbatim>\<open>with open(p, "wb") as f: f.write(d)\<close>.
\<close>

datatype ('o, 'c) libcall =
    Makedirs string
  | JoblibDump "'o pyval" string
  | TorchSaveStateDict "'o pyval" string
  | TorchOnnxExport "'o pyval" "'o pyval" string
  | SaveModel "'o pyval" string
  | KerasSave "'o pyval" string
  | KerasSaveTf "'o pyval" string
  | TFLiteConvert "'o pyval"
  | OpenWrite string 'c

subsection \<open>The world\<close>

text \<open>
  The world a call runs in: the directories on disk; the content \<open>'c\<close> of each artifact
  on disk, by its path (the content of a file, or of the tree of a SavedModel
  directory); the lines printed so far; and the trace of library calls made so far, each
  with its outcome (\<open>Inl\<close> the exception raised, \<open>Inr\<close> the content written or
  returned).
\<close>

record ('o, 'c, 'x) world =
  dirs :: "string set"
  files :: "string \<rightharpoonup> 'c"
  calls :: "(('o, 'c) libcall \<times> ('x + 'c)) list"
  stdout :: "string list"

text \<open>
  The libraries: how an object is formatted inside an f-string, and the outcome of a
  library call in a world.
\<close>

record ('o, 'c, 'x) lib =
  obj_str :: "'o \<Rightarrow> string"
  run :: "('o, 'c) libcall \<Rightarrow> ('o, 'c, 'x) world \<Rightarrow> 'x + 'c"

type_synonym ('o, 'c, 'x, 'a) action =
  "('o, 'c, 'x) world \<Rightarrow> ('x error + 'a) \<times> ('o, 'c, 'x) world"

text \<open>
  Statements in sequence: an exception ends the sequence and keeps the world reached so
  far; the module has no \<^verbatim>\<open>try\<close>, so nothing else happens to an exception.
\<close>

definition seq :: "('o, 'c, 'x, 'a) action \<Rightarrow> ('a \<Rightarrow> ('o, 'c, 'x, 'b) action) \<Rightarrow>
    ('o, 'c, 'x, 'b) action" where
  "seq m f w = (case m w of (Inl e, w') \<Rightarrow> (Inl e, w') | (Inr a, w') \<Rightarrow> f a w')"

definition raise :: "'x error \<Rightarrow> ('o, 'c, 'x, 'a) action" where
  "raise e w = (Inl e, w)"

definition print :: "string \<Rightarrow> ('o, 'c, 'x, unit) action" where
  "print s w = (Inr (), w\<lparr>stdout := stdout w @ [s]\<rparr>)"

text \<open>The artifact a library call that returned \<open>d\<close> has written: its path and content.\<close>

fun artifact :: "('o, 'c) libcall \<Rightarrow> 'c \<Rightarrow> (string \<times> 'c) option" where
  "artifact (Makedirs p) d = None"
| "artifact (JoblibDump m p) d = Some (p, d)"
| "artifact (TorchSaveStateDict m p) d = Some (p, d)"
| "artifact (TorchOnnxExport m s p) d = Some (p, d)"
| "artifact (SaveModel m p) d = Some (p, d)"
| "artifact (KerasSave m p) d = Some (p, d)"
| "artifact (KerasSaveTf m p) d = Some (p, d)"
| "artifact (TFLiteConvert m) d = None"
| "artifact (OpenWrite p data) d = Some (p, data)"

text \<open>
  What a library call that returned \<open>d\<close> has left on disk. \<^verbatim>\<open>model.save(p,
  save_format="tf")\<close> writes a SavedModel, which is a directory: it creates the directory
  \<open>p\<close> and the artifact at \<open>p\<close> is its tree.
\<close>

definition commit :: "('o, 'c) libcall \<Rightarrow> 'c \<Rightarrow> ('o, 'c, 'x) world \<Rightarrow> ('o, 'c, 'x) world" where
  "commit c d w =
     (case c of
        Makedirs p \<Rightarrow> w\<lparr>dirs := insert p (dirs w)\<rparr>
      | KerasSaveTf m p \<Rightarrow> w\<lparr>dirs := insert p (dirs w), files := (files w)(p \<mapsto> d)\<rparr>
      | _ \<Rightarrow> (case artifact c d of
                None \<Rightarrow> w
              | Some (p, a) \<Rightarrow> w\<lparr>files := (files w)(p \<mapsto> a)\<rparr>))"

text \<open>
  One library call: the trace records it with its outcome; a call that raises leaves the
  disk as it was, a call that returns has written its artifact.
\<close>

definition invoke :: "('o, 'c, 'x) lib \<Rightarrow> ('o, 'c) libcall \<Rightarrow> ('o, 'c, 'x, 'c) action" where
  "invoke L c w =
     (case run L c w of
        Inl x \<Rightarrow> (Inl (LibError x), w\<lparr>calls := calls w @ [(c, Inl x)]\<rparr>)
      | Inr d \<Rightarrow> (Inr d, commit c d (w\<lparr>calls := calls w @ [(c, Inr d)]\<rparr>)))"

text \<open>An f-string field \<^verbatim>\<open>{name}\<close>.\<close>

definition fmt :: "('o, 'c, 'x) lib \<Rightarrow> 'o pyval \<Rightarrow> string" where
  "fmt L v = (case v of PStr s \<Rightarrow> s | PObj ob \<Rightarrow> obj_str L ob)"

subsection \<open>Loading the module\<close>

text \<open>
  \<^verbatim>\<open>os.makedirs("models", exist_ok=True)\<close> at the top level of the module: it runs when
  the module is imported. With \<^verbatim>\<open>exist_ok=True\<close> an existing directory is not an
  error; any other failure to create it is raised.
\<close>

definition makedirs_exist_ok :: "('o, 'c, 'x) lib \<Rightarrow> string \<Rightarrow> ('o, 'c, 'x, unit) action" where
  "makedirs_exist_ok L p w =
     (if p \<in> dirs w then (Inr (), w)
      else seq (invoke L (Makedirs p)) (\<lambda>_ w'. (Inr (), w')) w)"

definition module_load :: "('o, 'c, 'x) lib \<Rightarrow> ('o, 'c, 'x, unit) action" where
  "module_load L = makedirs_exist_ok L ''models''"

subsection \<open>The exporters\<close>

definition export_sklearn_model ::
    "('o, 'c, 'x) lib \<Rightarrow> 'o pyval \<Rightarrow> 'o pyval \<Rightarrow> ('o, 'c, 'x, unit) action" where
  "export_sklearn_model L model name =
     seq (invoke L (JoblibDump model (''models/'' @ fmt L name @ ''.pkl''))) (\<lambda>_.
     seq (invoke L (JoblibDump model (''models/'' @ fmt L name @ ''.joblib''))) (\<lambda>_.
     seq (invoke L (JoblibDump model (''models/'' @ fmt L name @ ''.bin''))) (\<lambda>_.
     print (''[INFO] Scikit-learn model exported as: '' @ fmt L name @ ''.pkl, ''
            @ fmt L name @ ''.joblib, '' @ fmt L name @ ''.bin''))))"

definition export_pytorch_model ::
    "('o, 'c, 'x) lib \<Rightarrow> 'o pyval \<Rightarrow> 'o pyval \<Rightarrow> 'o pyval \<Rightarrow> ('o, 'c, 'x, unit) action" where
  "export_pytorch_model L model sample_input name =
     seq (invoke L (TorchSaveStateDict model (''models/'' @ fmt L name @ ''.pt''))) (\<lambda>_.
     seq (invoke L (TorchSaveStateDict model (''models/'' @ fmt L name @ ''.bin''))) (\<lambda>_.
     seq (invoke L (TorchOnnxExport model sample_input (''models/'' @ fmt L name @ ''.onnx''))) (\<lambda>_.
     print (''[INFO] PyTorch model exported as: '' @ fmt L name @ ''.pt, ''
            @ fmt L name @ ''.bin, '' @ fmt L name @ ''.onnx''))))"

definition export_xgboost_model ::
    "('o, 'c, 'x) lib \<Rightarrow> 'o pyval \<Rightarrow> 'o pyval \<Rightarrow> ('o, 'c, 'x, unit) action" where
  "export_xgboost_model L model name =
     seq (invoke L (SaveModel model (''models/'' @ fmt L name @ ''.bin''))) (\<lambda>_.
     seq (invoke L (SaveModel model (''models/'' @ fmt L name @ ''.json''))) (\<lambda>_.
     print (''[INFO] XGBoost model exported as: '' @ fmt L name @ ''.bin, ''
            @ fmt L name @ ''.json'')))"

definition export_lightgbm_model ::
    "('o, 'c, 'x) lib \<Rightarrow> 'o pyval \<Rightarrow> 'o pyval \<Rightarrow> ('o, 'c, 'x, unit) action" where
  "export_lightgbm_model L model name =
     seq (invoke L (SaveModel model (''models/'' @ fmt L name @ ''.bin''))) (\<lambda>_.
     seq (invoke L (SaveModel model (''models/'' @ fmt L name @ ''.txt''))) (\<lambda>_.
     print (''[INFO] LightGBM model exported as: '' @ fmt L name @ ''.bin, ''
            @ fmt L name @ ''.txt'')))"

definition export_catboost_model ::
    "('o, 'c, 'x) lib \<Rightarrow> 'o pyval \<Rightarrow> 'o pyval \<Rightarrow> ('o, 'c, 'x, unit) action" where
  "export_catboost_model L model name =
     seq (invoke L (SaveModel model (''models/'' @ fmt L name @ ''.bin''))) (\<lambda>_.
     seq (invoke L (SaveModel model (''models/'' @ fmt L name @ ''.cbm''))) (\<lambda>_.
     print (''[INFO] CatBoost model exported as: '' @ fmt L name @ ''.bin, ''
            @ fmt L name @ ''.cbm'')))"

definition export_keras_model ::
    "('o, 'c, 'x) lib \<Rightarrow> 'o pyval \<Rightarrow> 'o pyval \<Rightarrow> ('o, 'c, 'x, unit) action" where
  "export_keras_model L model name =
     seq (invoke L (KerasSave model (''models/'' @ fmt L name @ ''.h5''))) (\<lambda>_.
     seq (invoke L (KerasSaveTf model (''models/'' @ fmt L name @ ''_saved_model''))) (\<lambda>_.
     seq (invoke L (TFLiteConvert model)) (\<lambda>tflite_model.
     seq (invoke L (OpenWrite (''models/'' @ fmt L name @ ''.tflite'') tflite_model)) (\<lambda>_.
     print (''[INFO] Keras model exported as: '' @ fmt L name @ ''.h5, ''
            @ fmt L name @ ''_saved_model/, '' @ fmt L name @ ''.tflite'')))))"

subsection \<open>Calling an exporter with keyword arguments\<close>

text \<open>
  Python binds the arguments of a call \<^verbatim>\<open>f(a1, .., an, **kwargs)\<close> to the parameters of
  \<^verbatim>\<open>def f(p1, .., pm)\<close>, some of them with defaults: positional arguments go to the first
  parameters; a keyword that is no parameter, or that names a parameter already bound by
  position, is a \<^verbatim>\<open>TypeError\<close>, and so is a parameter left without a value. \<open>None\<close>
  stands for that \<^verbatim>\<open>TypeError\<close>. The keyword arguments are a dictionary, kept as the
  list of its items in order.
\<close>

definition bind_call :: "string list \<Rightarrow> (string \<times> 'v) list \<Rightarrow> 'v list \<Rightarrow>
    (string \<times> 'v) list \<Rightarrow> (string \<rightharpoonup> 'v) option" where
  "bind_call params defaults args kwargs =
     (if length params < length args then None
      else if \<exists>k \<in> set (map fst kwargs). k \<notin> set params then None
      else if \<exists>k \<in> set (map fst kwargs). k \<in> set (take (length args) params) then None
      else let env = map_of (zip params args @ kwargs @ defaults)
           in if \<forall>p \<in> set params. env p \<noteq> None then Some env else None)"

text \<open>A call \<^verbatim>\<open>f(model, **kwargs)\<close> of \<^verbatim>\<open>def f(model, name="model")\<close>.\<close>

definition call_model_name ::
    "('o pyval \<Rightarrow> 'o pyval \<Rightarrow> ('o, 'c, 'x, unit) action) \<Rightarrow> 'o pyval \<Rightarrow>
     (string \<times> 'o pyval) list \<Rightarrow> ('o, 'c, 'x, unit) action" where
  "call_model_name f model kwargs =
     (case bind_call [''model'', ''name''] [(''name'', PStr ''model'')] [model] kwargs of
        None \<Rightarrow> raise TypeError
      | Some env \<Rightarrow>
          (case (env ''model'', env ''name'') of
             (Some m, Some n) \<Rightarrow> f m n
           | _ \<Rightarrow> raise TypeError))"

text \<open>
  A call \<^verbatim>\<open>f(model, sample, **kwargs)\<close> of
  \<^verbatim>\<open>def f(model, sample_input, name="model")\<close>.
\<close>

definition call_model_sample_name ::
    "('o pyval \<Rightarrow> 'o pyval \<Rightarrow> 'o pyval \<Rightarrow> ('o, 'c, 'x, unit) action) \<Rightarrow> 'o pyval \<Rightarrow>
     'o pyval \<Rightarrow> (string \<times> 'o pyval) list \<Rightarrow> ('o, 'c, 'x, unit) action" where
  "call_model_sample_name f model sample kwargs =
     (case bind_call [''model'', ''sample_input'', ''name''] [(''name'', PStr ''model'')]
             [model, sample] kwargs of
        None \<Rightarrow> raise TypeError
      | Some env \<Rightarrow>
          (case (env ''model'', env ''sample_input'', env ''name'') of
             (Some m, Some s, Some n) \<Rightarrow> f m s n
           | _ \<Rightarrow> raise TypeError))"

subsection \<open>The dispatcher\<close>

text \<open>
  \<^verbatim>\<open>str.lower()\<close> on the characters of the tag: the letters \<^verbatim>\<open>A\<close> to \<^verbatim>\<open>Z\<close> become
  \<^verbatim>\<open>a\<close> to \<^verbatim>\<open>z\<close>, every other character stays. This is what Python does on ASCII
  characters only (\<open>ascii_only\<close> below); on a tag with other characters \<open>lower\<close> is not
  \<^verbatim>\<open>str.lower()\<close>, and what is proved of the lowered tag is stated for ASCII tags.
\<close>

definition lower_char :: "char \<Rightarrow> char" where
  "lower_char c =
     (let n = (of_char c :: nat) in if 65 \<le> n \<and> n \<le> 90 then char_of (n + 32) else c)"

definition lower :: "string \<Rightarrow> string" where
  "lower s = map lower_char s"

definition export_model :: "('o, 'c, 'x) lib \<Rightarrow> 'o pyval \<Rightarrow> string \<Rightarrow>
    (string \<times> 'o pyval) list \<Rightarrow> ('o, 'c, 'x, unit) action" where
  "export_model L model framework kwargs =
     (let framework = lower framework in
      if framework = ''sklearn'' then
        call_model_name (export_sklearn_model L) model kwargs
      else if framework = ''pytorch'' then
        (if ''sample_input'' \<notin> set (map fst kwargs) then
           raise (ValueError ''PyTorch export requires 'sample_input' argument'')
         else
           (case map_of kwargs ''sample_input'' of
              Some sample_input \<Rightarrow>
                call_model_sample_name (export_pytorch_model L) model sample_input kwargs
            | None \<Rightarrow> raise (KeyError ''sample_input'')))
      else if framework = ''xgboost'' then
        call_model_name (export_xgboost_model L) model kwargs
      else if framework = ''lightgbm'' then
        call_model_name (export_lightgbm_model L) model kwargs
      else if framework = ''catboost'' then
        call_model_name (export_catboost_model L) model kwargs
      else if framework = ''keras'' then
        call_model_name (export_keras_model L) model kwargs
      else
        raise (ValueError (''Unsupported framework: '' @ framework)))"

subsection \<open>The tags and artifacts as documented\<close>

text \<open>
  The six tags listed in the docstring of \<^verbatim>\<open>export_model\<close>, and what it means for a tag to
  be a case variant of another: the two have the same length and, position by position,
  the same character or the same ASCII letter in the other case. This is stated without
  \<open>lower\<close>, so that it can be compared with what the dispatcher computes. A tag is
  \<open>ascii_only\<close> when all its characters are ASCII, and has \<open>no_upper\<close> when none of them
  is an upper-case letter.
\<close>

definition supported_frameworks :: "string list" where
  "supported_frameworks =
     [''sklearn'', ''pytorch'', ''xgboost'', ''lightgbm'', ''catboost'', ''keras'']"

definition ascii_only :: "string \<Rightarrow> bool" where
  "ascii_only s \<longleftrightarrow> (\<forall>c \<in> set s. (of_char c :: nat) < 128)"

definition upper_letters :: string where
  "upper_letters = ''ABCDEFGHIJKLMNOPQRSTUVWXYZ''"

definition no_upper :: "string \<Rightarrow> bool" where
  "no_upper s \<longleftrightarrow> (\<forall>c \<in> set s. c \<notin> set upper_letters)"

definition upper_char :: "char \<Rightarrow> char" where
  "upper_char c =
     (let n = (of_char c :: nat) in if 97 \<le> n \<and> n \<le> 122 then char_of (n - 32) else c)"

definition same_letter :: "char \<Rightarrow> char \<Rightarrow> bool" where
  "same_letter c d \<longleftrightarrow> c = d \<or> c = upper_char d \<or> d = upper_char c"

definition case_variant :: "string \<Rightarrow> string \<Rightarrow> bool" where
  "case_variant s t \<longleftrightarrow> list_all2 same_letter s t"

text \<open>
  The artifacts documented for a tag and an output name \<open>N\<close> (the module docstring and
  the docstring of each exporter), in the order the exporter writes them.
\<close>

definition documented_artifacts :: "string \<Rightarrow> string \<Rightarrow> string list" where
  "documented_artifacts tag N =
     (if tag = ''sklearn'' then
        [''models/'' @ N @ ''.pkl'', ''models/'' @ N @ ''.joblib'', ''models/'' @ N @ ''.bin'']
      else if tag = ''pytorch'' then
        [''models/'' @ N @ ''.pt'', ''models/'' @ N @ ''.bin'', ''models/'' @ N @ ''.onnx'']
      else if tag = ''xgboost'' then [''models/'' @ N @ ''.bin'', ''models/'' @ N @ ''.json'']
      else if tag = ''lightgbm'' then [''models/'' @ N @ ''.bin'', ''models/'' @ N @ ''.txt'']
      else if tag = ''catboost'' then [''models/'' @ N @ ''.bin'', ''models/'' @ N @ ''.cbm'']
      else if tag = ''keras'' then
        [''models/'' @ N @ ''.h5'', ''models/'' @ N @ ''_saved_model'',
         ''models/'' @ N @ ''.tflite'']
      else [])"

text \<open>The six exporters applied to their arguments, each with its tag.\<close>

definition exporters :: "('o, 'c, 'x) lib \<Rightarrow> 'o pyval \<Rightarrow> 'o pyval \<Rightarrow> 'o pyval \<Rightarrow>
    (string \<times> ('o, 'c, 'x, unit) action) list" where
  "exporters L model sample_input name =
     [(''sklearn'', export_sklearn_model L model name),
      (''pytorch'', export_pytorch_model L model sample_input name),
      (''xgboost'', export_xgboost_model L model name),
      (''lightgbm'', export_lightgbm_model L model name),
      (''catboost'', export_catboost_model L model name),
      (''keras'', export_keras_model L model name)]"

text \<open>
  The value an exporter with the parameters \<^verbatim>\<open>(model, name="model")\<close> sees for
  \<^verbatim>\<open>name\<close> when it is called with the keyword arguments \<open>kwargs\<close>.
\<close>

definition name_of :: "(string \<times> 'o pyval) list \<Rightarrow> 'o pyval" where
  "name_of kwargs = (case map_of kwargs ''name'' of Some n \<Rightarrow> n | None \<Rightarrow> PStr ''model'')"

text \<open>
  Creating the directory lazily would mean that loading the module creates nothing, the
  creation being left to the first export that needs the directory.
\<close>

definition created_lazily :: "('o, 'c, 'x) lib \<Rightarrow> ('o, 'c, 'x) world \<Rightarrow> bool" where
  "created_lazily L w \<longleftrightarrow> dirs (snd (module_load L w)) = dirs w"

subsection \<open>Reading a trace\<close>

text \<open>The artifacts written by the calls of a trace that returned, in order.\<close>

definition writes :: "(('o, 'c) libcall \<times> ('x + 'c)) list \<Rightarrow> (string \<times> 'c) list" where
  "writes tr = concat (map (\<lambda>(c, out). case out of Inl x \<Rightarrow> []
     | Inr d \<Rightarrow> (case artifact c d of None \<Rightarrow> [] | Some pa \<Rightarrow> [pa])) tr)"

text \<open>
  A run from \<open>w\<close> to \<open>w'\<close> with result \<open>r\<close> is orderly for the paths \<open>paths\<close> when the
  calls \<open>new\<close> it added to the trace satisfy:
  \<^item> each is a call of the library \<open>L\<close> with the outcome \<open>L\<close> gave it;
  \<^item> only the last one can have raised, and the run ends with exactly that exception;
  \<^item> the run ends with a library exception only if its last call raised it;
  \<^item> the artifacts are those before the run, overwritten by what the calls wrote, and
    no directory has been removed;
  \<^item> the paths written are the first of \<open>paths\<close>, and all of them if the run returned.
\<close>

definition orderly_run :: "('o, 'c, 'x) lib \<Rightarrow> string list \<Rightarrow> ('o, 'c, 'x) world \<Rightarrow>
    'x error + 'a \<Rightarrow> ('o, 'c, 'x) world \<Rightarrow> bool" where
  "orderly_run L paths w r w' \<longleftrightarrow>
     (\<exists>new. calls w' = calls w @ new \<and> dirs w \<subseteq> dirs w'
        \<and> (\<forall>e \<in> set new. \<exists>u. run L (fst e) u = snd e)
        \<and> (\<forall>e \<in> set (butlast new). \<not> isl (snd e))
        \<and> (\<forall>x. new \<noteq> [] \<and> snd (last new) = Inl x \<longrightarrow> r = Inl (LibError x))
        \<and> (\<forall>x. r = Inl (LibError x) \<longrightarrow> new \<noteq> [] \<and> snd (last new) = Inl x)
        \<and> files w' = files w ++ map_of (rev (writes new))
        \<and> (\<exists>rest. paths = map fst (writes new) @ rest)
        \<and> (\<not> isl r \<longrightarrow> map fst (writes new) = paths))"

definition orderly :: "('o, 'c, 'x) lib \<Rightarrow> string list \<Rightarrow> ('o, 'c, 'x, 'a) action \<Rightarrow> bool" where
  "orderly L paths m \<longleftrightarrow> (\<forall>w. orderly_run L paths w (fst (m w)) (snd (m w)))"




subsection \<open>Sample libraries and worlds\<close>

text \<open>
  An empty disk; a library whose calls all return; a library whose first call returns
  and whose later calls raise, as on a disk that is full after one file; and a library
  that serialises one object with \<^verbatim>\<open>joblib.dump\<close> and raises on every other call.
\<close>

definition empty_world :: "(nat, string, string) world" where
  "empty_world = \<lparr>dirs = {}, files = Map.empty, calls = [], stdout = []\<rparr>"

definition sound_lib :: "(nat, string, string) lib" where
  "sound_lib = \<lparr>obj_str = (\<lambda>n. ''object''), run = (\<lambda>c w. Inr ''bytes'')\<rparr>"

definition full_disk_lib :: "(nat, string, string) lib" where
  "full_disk_lib = \<lparr>obj_str = (\<lambda>n. ''object''),
     run = (\<lambda>c w. if calls w = [] then Inr ''bytes'' else Inl ''disk full'')\<rparr>"


section \<open>The dispatcher, the binding of arguments and the traces of the exporters\<close>

text \<open>
  Case variants are what \<open>lower\<close> identifies: two tags are case variants of each other
  exactly when the dispatcher's \<^verbatim>\<open>.lower()\<close> maps them to the same string.
\<close>

lemma of_char_lower_char:
  "(of_char (lower_char c) :: nat) =
     (if 65 \<le> (of_char c :: nat) \<and> (of_char c :: nat) \<le> 90 then of_char c + 32 else of_char c)"
  by (simp add: lower_char_def Let_def)

lemma of_char_upper_char:
  "(of_char (upper_char c) :: nat) =
     (if 97 \<le> (of_char c :: nat) \<and> (of_char c :: nat) \<le> 122 then of_char c - 32 else of_char c)"
proof -
  have "(of_char c :: nat) < 256" by simp
  then have "(of_char c :: nat) - 32 < 256" by arith
  then have "((of_char c :: nat) - 32) mod 256 = of_char c - 32" by (rule mod_less)
  then show ?thesis by (simp add: upper_char_def Let_def)
qed

lemma same_letter_iff: "same_letter c d \<longleftrightarrow> lower_char c = lower_char d"
proof -
  have "same_letter c d \<longleftrightarrow>
      (of_char c :: nat) = of_char d \<or> (of_char c :: nat) = of_char (upper_char d)
      \<or> (of_char d :: nat) = of_char (upper_char c)"
    unfolding same_letter_def by (metis of_char_eq_iff)
  also have "\<dots> \<longleftrightarrow> (of_char (lower_char c) :: nat) = of_char (lower_char d)"
    unfolding of_char_lower_char of_char_upper_char by auto
  finally show ?thesis by simp
qed

lemma case_variant_iff: "case_variant s t \<longleftrightarrow> lower s = lower t"
  unfolding case_variant_def lower_def
  by (auto simp add: same_letter_iff list_all2_conv_all_nth list_eq_iff_nth_eq)

lemma lower_char_idem: "lower_char (lower_char c) = lower_char c"
proof -
  have "(of_char (lower_char (lower_char c)) :: nat) = of_char (lower_char c)"
    unfolding of_char_lower_char [of "lower_char c"] unfolding of_char_lower_char by auto
  then show ?thesis by simp
qed

lemma case_variant_lower: "case_variant (lower fw) fw"
  by (simp add: case_variant_iff lower_def lower_char_idem)

lemma upper_letters_range:
  "c \<in> set upper_letters \<Longrightarrow> 65 \<le> (of_char c :: nat) \<and> (of_char c :: nat) \<le> 90"
  unfolding upper_letters_def by auto

lemma no_upper_lower: "no_upper (lower fw)"
  unfolding no_upper_def lower_def
proof
  fix d assume "d \<in> set (map lower_char fw)"
  then obtain c where d: "d = lower_char c" by auto
  show "d \<notin> set upper_letters"
  proof
    assume "d \<in> set upper_letters"
    then have "65 \<le> (of_char d :: nat) \<and> (of_char d :: nat) \<le> 90"
      by (rule upper_letters_range)
    then show False unfolding d of_char_lower_char by (auto split: if_splits)
  qed
qed

lemma lower_tags:
  "lower ''sklearn'' = ''sklearn''" "lower ''pytorch'' = ''pytorch''"
  "lower ''xgboost'' = ''xgboost''" "lower ''lightgbm'' = ''lightgbm''"
  "lower ''catboost'' = ''catboost''" "lower ''keras'' = ''keras''"
  by code_simp+

text \<open>
  Argument binding: the two ways a keyword is refused, and the binding that succeeds.
\<close>

lemma bind_call_unexpected:
  "k \<in> set (map fst kwargs) \<Longrightarrow> k \<notin> set params \<Longrightarrow>
   bind_call params defaults args kwargs = None"
  unfolding bind_call_def Let_def by auto

lemma bind_call_multiple:
  "k \<in> set (map fst kwargs) \<Longrightarrow> k \<in> set (take (length args) params) \<Longrightarrow>
   bind_call params defaults args kwargs = None"
  unfolding bind_call_def Let_def by auto

lemma bind_call_bound:
  assumes "length args \<le> length params"
    and "set (map fst kwargs) \<subseteq> set params"
    and "set (map fst kwargs) \<inter> set (take (length args) params) = {}"
    and "\<forall>p \<in> set params. map_of (zip params args @ kwargs @ defaults) p \<noteq> None"
  shows "bind_call params defaults args kwargs
     = Some (map_of (zip params args @ kwargs @ defaults))"
  unfolding bind_call_def Let_def using assms by auto

lemma call_model_name_ok:
  assumes "fst ` set kw \<subseteq> {''name''}"
  shows "call_model_name f model kw = f model (name_of kw)"
proof -
  have c: "map_of (kw @ [(''name'', PStr ''model'')]) ''name'' = Some (name_of kw)"
    by (simp add: name_of_def map_add_def split: option.splits)
  have "bind_call [''model'', ''name''] [(''name'', PStr ''model'')] [model] kw
      = Some (map_of (zip [''model'', ''name''] [model] @ kw @ [(''name'', PStr ''model'')]))"
  proof (rule bind_call_bound)
    show "length [model] \<le> length [''model'', ''name'']" by simp
    show "set (map fst kw) \<subseteq> set [''model'', ''name'']" using assms by auto
    show "set (map fst kw) \<inter> set (take (length [model]) [''model'', ''name'']) = {}"
      using assms by auto
    show "\<forall>p\<in>set [''model'', ''name''].
       map_of (zip [''model'', ''name''] [model] @ kw @ [(''name'', PStr ''model'')]) p \<noteq> None"
      using c by simp
  qed
  then show ?thesis
    unfolding call_model_name_def using c by simp
qed

lemma call_model_name_extra:
  assumes "k \<in> fst ` set kw" and "k \<noteq> ''name''"
  shows "call_model_name f model kw = raise TypeError"
proof -
  have "bind_call [''model'', ''name''] [(''name'', PStr ''model'')] [model] kw = None"
  proof (cases "k = ''model''")
    case True
    show ?thesis
      by (rule bind_call_multiple [of k]) (use assms True in auto)
  next
    case False
    show ?thesis
      by (rule bind_call_unexpected [of k]) (use assms False in auto)
  qed
  then show ?thesis
    unfolding call_model_name_def by simp
qed

lemma call_model_sample_name_twice:
  assumes "''sample_input'' \<in> fst ` set kw"
  shows "call_model_sample_name f model s kw = raise TypeError"
proof -
  have "bind_call [''model'', ''sample_input'', ''name''] [(''name'', PStr ''model'')]
      [model, s] kw = None"
    by (rule bind_call_multiple [of "''sample_input''"]) (use assms in auto)
  then show ?thesis
    unfolding call_model_sample_name_def by simp
qed

text \<open>
  The branches of the dispatcher, by the lowered tag.
\<close>

lemma export_model_pytorch:
  assumes "lower fw = ''pytorch''"
  shows "export_model L m fw kw =
     (if ''sample_input'' \<in> fst ` set kw then raise TypeError
      else raise (ValueError ''PyTorch export requires 'sample_input' argument''))"
proof (cases "''sample_input'' \<in> fst ` set kw")
  case True
  then obtain v where "map_of kw ''sample_input'' = Some v"
    by (metis (no_types, opaque_lifting) domD dom_map_of_conv_image_fst)
  with True assms show ?thesis
    by (simp add: export_model_def Let_def call_model_sample_name_twice)
next
  case False
  with assms show ?thesis by (simp add: export_model_def Let_def)
qed

lemma export_model_sklearn:
  "lower fw = ''sklearn'' \<Longrightarrow>
   export_model L m fw kw = call_model_name (export_sklearn_model L) m kw"
  by (simp add: export_model_def Let_def)

lemma export_model_xgboost:
  "lower fw = ''xgboost'' \<Longrightarrow>
   export_model L m fw kw = call_model_name (export_xgboost_model L) m kw"
  by (simp add: export_model_def Let_def)

lemma export_model_lightgbm:
  "lower fw = ''lightgbm'' \<Longrightarrow>
   export_model L m fw kw = call_model_name (export_lightgbm_model L) m kw"
  by (simp add: export_model_def Let_def)

lemma export_model_catboost:
  "lower fw = ''catboost'' \<Longrightarrow>
   export_model L m fw kw = call_model_name (export_catboost_model L) m kw"
  by (simp add: export_model_def Let_def)

lemma export_model_keras:
  "lower fw = ''keras'' \<Longrightarrow>
   export_model L m fw kw = call_model_name (export_keras_model L) m kw"
  by (simp add: export_model_def Let_def)

lemma export_model_unsupported:
  assumes "lower fw \<notin> set supported_frameworks"
  shows "export_model L m fw kw = raise (ValueError (''Unsupported framework: '' @ lower fw))"
  using assms by (simp add: export_model_def Let_def supported_frameworks_def)

lemma supported_iff:
  "(\<exists>t \<in> set supported_frameworks. case_variant fw t) \<longleftrightarrow> lower fw \<in> set supported_frameworks"
  by (auto simp add: supported_frameworks_def case_variant_iff lower_tags)

text \<open>
  Every action built from library calls, \<open>print\<close> and \<open>seq\<close> is orderly; a \<open>raise\<close> of
  the dispatcher's own is orderly with an empty trace.
\<close>

lemma writes_append: "writes (xs @ ys) = writes xs @ writes ys"
  by (simp add: writes_def)

lemma writes_Nil: "writes [] = []"
  by (simp add: writes_def)

lemma in_set_butlast_or_last: "e \<in> set xs \<Longrightarrow> e \<in> set (butlast xs) \<or> e = last xs"
  by (induction xs) auto

lemma orderly_print: "orderly L [] (print s)"
  unfolding orderly_def orderly_run_def print_def by (simp add: writes_Nil)

lemma orderly_seq:
  assumes m: "orderly L ps1 m" and f: "\<And>a. orderly L ps2 (f a)"
  shows "orderly L (ps1 @ ps2) (seq m f)"
  unfolding orderly_def
proof
  fix w
  obtain r1 w1 where mw: "m w = (r1, w1)" by (cases "m w")
  from m have "orderly_run L ps1 w (fst (m w)) (snd (m w))" unfolding orderly_def by (rule spec)
  then have "orderly_run L ps1 w r1 w1" by (simp add: mw)
  then obtain new1 rest1 where n1:
    "calls w1 = calls w @ new1" "dirs w \<subseteq> dirs w1"
    "\<forall>e \<in> set (butlast new1). \<not> isl (snd e)"
    "\<forall>x. new1 \<noteq> [] \<and> snd (last new1) = Inl x \<longrightarrow> r1 = Inl (LibError x)"
    "\<forall>x. r1 = Inl (LibError x) \<longrightarrow> new1 \<noteq> [] \<and> snd (last new1) = Inl x"
    "files w1 = files w ++ map_of (rev (writes new1))"
    "ps1 = map fst (writes new1) @ rest1"
    "\<not> isl r1 \<longrightarrow> map fst (writes new1) = ps1"
    "\<forall>e \<in> set new1. \<exists>u. run L (fst e) u = snd e"
    unfolding orderly_run_def by blast
  show "orderly_run L (ps1 @ ps2) w (fst (seq m f w)) (snd (seq m f w))"
  proof (cases r1)
    case (Inl e)
    then have s: "seq m f w = (Inl e, w1)" by (simp add: seq_def mw)
    show ?thesis
      unfolding s orderly_run_def fst_conv snd_conv
    proof (intro exI [of _ new1] conjI)
      show "calls w1 = calls w @ new1" by (rule n1(1))
      show "dirs w \<subseteq> dirs w1" by (rule n1(2))
      show "\<forall>e\<in>set new1. \<exists>u. run L (fst e) u = snd e" by (rule n1(9))
      show "\<forall>e\<in>set (butlast new1). \<not> isl (snd e)" by (rule n1(3))
      show "\<forall>x. new1 \<noteq> [] \<and> snd (last new1) = Inl x \<longrightarrow> Inl e = Inl (LibError x)"
        using n1(4) Inl by simp
      show "\<forall>x. Inl e = Inl (LibError x) \<longrightarrow> new1 \<noteq> [] \<and> snd (last new1) = Inl x"
        using n1(5) Inl by simp
      show "files w1 = files w ++ map_of (rev (writes new1))" by (rule n1(6))
      show "\<exists>rest. ps1 @ ps2 = map fst (writes new1) @ rest"
        using n1(7) by simp
      show "\<not> isl (Inl e) \<longrightarrow> map fst (writes new1) = ps1 @ ps2" by simp
    qed
  next
    case (Inr a)
    obtain r w' where fw: "f a w1 = (r, w')" by (cases "f a w1")
    from Inr have s: "seq m f w = (r, w')" by (simp add: seq_def mw fw)
    from f [of a] have "orderly_run L ps2 w1 (fst (f a w1)) (snd (f a w1))"
      unfolding orderly_def by (rule spec)
    then have "orderly_run L ps2 w1 r w'" by (simp add: fw)
    then obtain new2 rest2 where n2:
      "calls w' = calls w1 @ new2" "dirs w1 \<subseteq> dirs w'"
      "\<forall>e \<in> set (butlast new2). \<not> isl (snd e)"
      "\<forall>x. new2 \<noteq> [] \<and> snd (last new2) = Inl x \<longrightarrow> r = Inl (LibError x)"
      "\<forall>x. r = Inl (LibError x) \<longrightarrow> new2 \<noteq> [] \<and> snd (last new2) = Inl x"
      "files w' = files w1 ++ map_of (rev (writes new2))"
      "ps2 = map fst (writes new2) @ rest2"
      "\<not> isl r \<longrightarrow> map fst (writes new2) = ps2"
      "\<forall>e \<in> set new2. \<exists>u. run L (fst e) u = snd e"
      unfolding orderly_run_def by blast
    have last1: "\<not> isl (snd (last new1))" if "new1 \<noteq> []"
      using n1(4) that Inr by (cases "snd (last new1)") auto
    have all1: "\<forall>e \<in> set new1. \<not> isl (snd e)"
    proof
      fix e assume e: "e \<in> set new1"
      then have ne: "new1 \<noteq> []" by auto
      from e have "e \<in> set (butlast new1) \<or> e = last new1" by (rule in_set_butlast_or_last)
      with n1(3) last1 [OF ne] show "\<not> isl (snd e)" by blast
    qed
    have ps1: "map fst (writes new1) = ps1" using n1(8) Inr by simp
    have c1: "calls w' = calls w @ (new1 @ new2)" using n1(1) n2(1) by simp
    have c2: "dirs w \<subseteq> dirs w'" using n1(2) n2(2) by (rule subset_trans)
    have c0: "\<forall>e \<in> set (new1 @ new2). \<exists>u. run L (fst e) u = snd e"
      using n1(9) n2(9) by auto
    have c3: "\<forall>e \<in> set (butlast (new1 @ new2)). \<not> isl (snd e)"
      using all1 n1(3) n2(3) by (auto simp add: butlast_append)
    have c4: "\<forall>x. new1 @ new2 \<noteq> [] \<and> snd (last (new1 @ new2)) = Inl x \<longrightarrow> r = Inl (LibError x)"
    proof (cases "new2 = []")
      case True
      show ?thesis
      proof (intro allI impI)
        fix x assume "new1 @ new2 \<noteq> [] \<and> snd (last (new1 @ new2)) = Inl x"
        with True have "new1 \<noteq> []" "snd (last new1) = Inl x" by auto
        with last1 show "r = Inl (LibError x)" by simp
      qed
    next
      case False
      with n2(4) show ?thesis by simp
    qed
    have c5: "\<forall>x. r = Inl (LibError x) \<longrightarrow> new1 @ new2 \<noteq> [] \<and> snd (last (new1 @ new2)) = Inl x"
      using n2(5) by auto
    have c6: "files w' = files w ++ map_of (rev (writes (new1 @ new2)))"
      using n1(6) n2(6) by (simp add: writes_append)
    have c7: "\<exists>rest. ps1 @ ps2 = map fst (writes (new1 @ new2)) @ rest"
      using ps1 n2(7) by (auto simp add: writes_append)
    have c8: "\<not> isl r \<longrightarrow> map fst (writes (new1 @ new2)) = ps1 @ ps2"
      using ps1 n2(8) by (auto simp add: writes_append)
    show ?thesis
      unfolding s orderly_run_def fst_conv snd_conv
      by (intro exI [of _ "new1 @ new2"] conjI) (fact c0 c1 c2 c3 c4 c5 c6 c7 c8)+
  qed
qed

lemma orderly_raise: "(\<And>x. e \<noteq> LibError x) \<Longrightarrow> orderly L ps (raise e)"
  unfolding orderly_def orderly_run_def raise_def
  by (intro allI exI [of _ "[]"]) (simp add: writes_Nil)

lemma orderly_invoke:
  assumes "\<And>p. c \<noteq> Makedirs p"
    and "\<And>d. map fst (case artifact c d of None \<Rightarrow> [] | Some pa \<Rightarrow> [pa]) = ps"
  shows "orderly L ps (invoke L c)"
  unfolding orderly_def
proof
  fix w
  show "orderly_run L ps w (fst (invoke L c w)) (snd (invoke L c w))"
  proof (cases "run L c w")
    case (Inl x)
    then have i: "invoke L c w = (Inl (LibError x), w\<lparr>calls := calls w @ [(c, Inl x)]\<rparr>)"
      by (simp add: invoke_def)
    show ?thesis
      unfolding i orderly_run_def fst_conv snd_conv
      using Inl by (intro exI [of _ "[(c, Inl x)]"]) (auto simp add: writes_def)
  next
    case (Inr d)
    then have i: "invoke L c w = (Inr d, commit c d (w\<lparr>calls := calls w @ [(c, Inr d)]\<rparr>))"
      by (simp add: invoke_def)
    have w: "writes [(c, Inr d) :: ('a, 'b) libcall \<times> ('c + 'b)]
        = (case artifact c d of None \<Rightarrow> [] | Some pa \<Rightarrow> [pa])"
      by (simp add: writes_def)
    show ?thesis
      unfolding i orderly_run_def fst_conv snd_conv
      apply (intro exI [of _ "[(c, Inr d)]"])
      using assms(1) assms(2) [of d] Inr unfolding w
      by (cases c) (auto simp add: commit_def)
  qed
qed






lemma distinct_documented_artifacts: "distinct (documented_artifacts tag N)"
  by (simp add: documented_artifacts_def)

text \<open>
  Each exporter is orderly for its documented artifacts, and so is the dispatcher.
\<close>

lemma orderly_sklearn:
  "orderly L (documented_artifacts ''sklearn'' (fmt L n)) (export_sklearn_model L m n)"
proof -
  have "orderly L ([''models/'' @ fmt L n @ ''.pkl''] @ [''models/'' @ fmt L n @ ''.joblib'']
      @ [''models/'' @ fmt L n @ ''.bin''] @ []) (export_sklearn_model L m n)"
    unfolding export_sklearn_model_def
    by (intro orderly_seq orderly_invoke orderly_print) simp_all
  then show ?thesis by (simp add: documented_artifacts_def)
qed

lemma orderly_pytorch:
  "orderly L (documented_artifacts ''pytorch'' (fmt L n)) (export_pytorch_model L m s n)"
proof -
  have "orderly L ([''models/'' @ fmt L n @ ''.pt''] @ [''models/'' @ fmt L n @ ''.bin'']
      @ [''models/'' @ fmt L n @ ''.onnx''] @ []) (export_pytorch_model L m s n)"
    unfolding export_pytorch_model_def
    by (intro orderly_seq orderly_invoke orderly_print) simp_all
  then show ?thesis by (simp add: documented_artifacts_def)
qed

lemma orderly_xgboost:
  "orderly L (documented_artifacts ''xgboost'' (fmt L n)) (export_xgboost_model L m n)"
proof -
  have "orderly L ([''models/'' @ fmt L n @ ''.bin''] @ [''models/'' @ fmt L n @ ''.json''] @ [])
      (export_xgboost_model L m n)"
    unfolding export_xgboost_model_def
    by (intro orderly_seq orderly_invoke orderly_print) simp_all
  then show ?thesis by (simp add: documented_artifacts_def)
qed

lemma orderly_lightgbm:
  "orderly L (documented_artifacts ''lightgbm'' (fmt L n)) (export_lightgbm_model L m n)"
proof -
  have "orderly L ([''models/'' @ fmt L n @ ''.bin''] @ [''models/'' @ fmt L n @ ''.txt''] @ [])
      (export_lightgbm_model L m n)"
    unfolding export_lightgbm_model_def
    by (intro orderly_seq orderly_invoke orderly_print) simp_all
  then show ?thesis by (simp add: documented_artifacts_def)
qed

lemma orderly_catboost:
  "orderly L (documented_artifacts ''catboost'' (fmt L n)) (export_catboost_model L m n)"
proof -
  have "orderly L ([''models/'' @ fmt L n @ ''.bin''] @ [''models/'' @ fmt L n @ ''.cbm''] @ [])
      (export_catboost_model L m n)"
    unfolding export_catboost_model_def
    by (intro orderly_seq orderly_invoke orderly_print) simp_all
  then show ?thesis by (simp add: documented_artifacts_def)
qed

lemma orderly_keras:
  "orderly L (documented_artifacts ''keras'' (fmt L n)) (export_keras_model L m n)"
proof -
  have "orderly L ([''models/'' @ fmt L n @ ''.h5''] @ [''models/'' @ fmt L n @ ''_saved_model'']
      @ [] @ [''models/'' @ fmt L n @ ''.tflite''] @ []) (export_keras_model L m n)"
    unfolding export_keras_model_def
    by (intro orderly_seq orderly_invoke orderly_print) simp_all
  then show ?thesis by (simp add: documented_artifacts_def)
qed

lemma orderly_exporters:
  assumes "(t, E) \<in> set (exporters L m s n)"
  shows "orderly L (documented_artifacts t (fmt L n)) E"
  using assms orderly_sklearn orderly_pytorch orderly_xgboost orderly_lightgbm
    orderly_catboost orderly_keras
  unfolding exporters_def by auto


lemma orderly_call_model_name:
  assumes "\<And>n. orderly L (ps n) (f m n)"
  shows "orderly L (ps (name_of kw)) (call_model_name f m kw)"
proof (cases "fst ` set kw \<subseteq> {''name''}")
  case True
  then show ?thesis using assms by (simp add: call_model_name_ok)
next
  case False
  then obtain k where "k \<in> fst ` set kw" "k \<noteq> ''name''" by auto
  then have "call_model_name f m kw = raise TypeError" by (rule call_model_name_extra)
  then show ?thesis by (simp add: orderly_raise)
qed

lemma orderly_export_model:
  "orderly L (documented_artifacts (lower fw) (fmt L (name_of kw))) (export_model L m fw kw)"
proof -
  let ?ps = "\<lambda>t n. documented_artifacts t (fmt L n)"
  consider "lower fw = ''sklearn''" | "lower fw = ''pytorch''" | "lower fw = ''xgboost''"
    | "lower fw = ''lightgbm''" | "lower fw = ''catboost''" | "lower fw = ''keras''"
    | "lower fw \<notin> set supported_frameworks"
    unfolding supported_frameworks_def by auto
  then show ?thesis
  proof cases
    case 1
    show ?thesis unfolding export_model_sklearn [OF 1] 1
      by (rule orderly_call_model_name [where ps = "?ps ''sklearn''"]) (rule orderly_sklearn)
  next
    case 2
    show ?thesis unfolding export_model_pytorch [OF 2] by (simp add: orderly_raise)
  next
    case 3
    show ?thesis unfolding export_model_xgboost [OF 3] 3
      by (rule orderly_call_model_name [where ps = "?ps ''xgboost''"]) (rule orderly_xgboost)
  next
    case 4
    show ?thesis unfolding export_model_lightgbm [OF 4] 4
      by (rule orderly_call_model_name [where ps = "?ps ''lightgbm''"]) (rule orderly_lightgbm)
  next
    case 5
    show ?thesis unfolding export_model_catboost [OF 5] 5
      by (rule orderly_call_model_name [where ps = "?ps ''catboost''"]) (rule orderly_catboost)
  next
    case 6
    show ?thesis unfolding export_model_keras [OF 6] 6
      by (rule orderly_call_model_name [where ps = "?ps ''keras''"]) (rule orderly_keras)
  next
    case 7
    show ?thesis unfolding export_model_unsupported [OF 7] by (simp add: orderly_raise)
  qed
qed

subsection \<open>What a run leaves on disk\<close>

lemma map_of_rev_distinct:
  assumes "distinct (map fst xs)" and "(p, a) \<in> set xs"
  shows "map_of (rev xs) p = Some a"
proof -
  have "distinct (map fst (rev xs))" using assms(1) by (simp add: rev_map [symmetric])
  moreover have "(p, a) \<in> set (rev xs)" using assms(2) by simp
  ultimately show ?thesis by (rule map_of_is_SomeI)
qed

lemma orderly_run_files:
  assumes "orderly_run L ps w r w'" and "distinct ps"
  shows "\<exists>new. calls w' = calls w @ new
     \<and> (\<forall>pa \<in> set (writes new). files w' (fst pa) = Some (snd pa))
     \<and> (\<forall>p. p \<notin> fst ` set (writes new) \<longrightarrow> files w' p = files w p)"
proof -
  from assms(1) obtain new rest where n: "calls w' = calls w @ new"
    "files w' = files w ++ map_of (rev (writes new))" "ps = map fst (writes new) @ rest"
    unfolding orderly_run_def by blast
  from n(3) assms(2) have d: "distinct (map fst (writes new))" by simp
  have a: "\<forall>pa \<in> set (writes new). files w' (fst pa) = Some (snd pa)"
  proof
    fix pa assume "pa \<in> set (writes new)"
    then have "(fst pa, snd pa) \<in> set (writes new)" by simp
    with d have "map_of (rev (writes new)) (fst pa) = Some (snd pa)" by (rule map_of_rev_distinct)
    then show "files w' (fst pa) = Some (snd pa)" by (simp add: n(2))
  qed
  have b: "\<forall>p. p \<notin> fst ` set (writes new) \<longrightarrow> files w' p = files w p"
  proof (intro allI impI)
    fix p assume "p \<notin> fst ` set (writes new)"
    then have "map_of (rev (writes new)) p = None" by (simp add: map_of_eq_None_iff)
    then show "files w' p = files w p" by (simp add: n(2) map_add_def)
  qed
  from n(1) a b show ?thesis by blast
qed

lemma orderly_run_returned:
  assumes "orderly_run L ps w r w'" and "\<not> isl r"
  shows "\<exists>new. calls w' = calls w @ new
    \<and> files w' = files w ++ map_of (rev (writes new))
    \<and> map fst (writes new) = ps"
  using assms unfolding orderly_run_def by blast

lemma orderly_act:
  assumes "act = export_model L model fw kwargs \<or> act \<in> snd ` set (exporters L model sample name)"
  shows "\<exists>ps. distinct ps \<and> orderly L ps act"
proof -
  from assms consider "act = export_model L model fw kwargs"
    | t where "(t, act) \<in> set (exporters L model sample name)" by auto
  then show ?thesis
  proof cases
    case 1
    then show ?thesis using orderly_export_model distinct_documented_artifacts by blast
  next
    case 2
    then show ?thesis using orderly_exporters distinct_documented_artifacts by blast
  qed
qed

subsection \<open>Loading the module, and the tag \<^verbatim>\<open>pytorch\<close>\<close>

lemma module_load_present: "''models'' \<in> dirs w \<Longrightarrow> module_load L w = (Inr (), w)"
  by (simp add: module_load_def makedirs_exist_ok_def)

lemma module_load_creates:
  assumes "module_load L w = (Inr (), w')"
  shows "''models'' \<in> dirs w'"
proof (cases "''models'' \<in> dirs w")
  case True
  with assms show ?thesis by (simp add: module_load_present)
next
  case False
  with assms show ?thesis
    by (cases "run L (Makedirs ''models'') w")
      (auto simp add: module_load_def makedirs_exist_ok_def seq_def invoke_def commit_def)
qed

lemma orderly_dirs: "orderly L ps act \<Longrightarrow> dirs w \<subseteq> dirs (snd (act w))"
  unfolding orderly_def orderly_run_def by blast

lemma export_model_pytorch_never_exports:
  assumes "case_variant fw ''pytorch''"
  shows "\<exists>e. export_model L model fw kwargs w = (Inl e, w)"
proof -
  from assms have "lower fw = ''pytorch''" by (simp add: case_variant_iff lower_tags)
  then show ?thesis by (simp add: export_model_pytorch raise_def)
qed

lemma unsupported_lower:
  assumes "\<forall>t \<in> set supported_frameworks. \<not> case_variant fw t"
  shows "lower fw \<notin> set supported_frameworks"
  using assms supported_iff [of fw] by blast

subsection \<open>Sample runs\<close>

lemma lower_samples:
  "lower ''PyTorch'' = ''pytorch''" "lower ''XGBOOST'' = ''xgboost''"
  "lower ''Sklearn'' = ''sklearn''" "lower ''foo'' = ''foo''" "lower ''FOO'' = ''foo''"
  by code_simp+

lemma sklearn_on_full_disk:
  "export_model full_disk_lib (PObj 0) ''sklearn'' [(''name'', PStr ''clf'')] empty_world =
     (Inl (LibError ''disk full''),
      \<lparr>dirs = {}, files = [''models/clf.pkl'' \<mapsto> ''bytes''],
       calls = [(JoblibDump (PObj 0) ''models/clf.pkl'', Inr ''bytes''),
                (JoblibDump (PObj 0) ''models/clf.joblib'', Inl ''disk full'')],
       stdout = []\<rparr>)"
  by (simp add: export_model_sklearn lower_tags call_model_name_ok name_of_def
      export_sklearn_model_def seq_def invoke_def commit_def fmt_def full_disk_lib_def
      empty_world_def)

lemma sklearn_on_sound_disk:
  "export_sklearn_model sound_lib (PObj 0) (PStr ''clf'') empty_world =
     (Inr (),
      \<lparr>dirs = {},
       files = [''models/clf.pkl'' \<mapsto> ''bytes'', ''models/clf.joblib'' \<mapsto> ''bytes'',
                ''models/clf.bin'' \<mapsto> ''bytes''],
       calls = [(JoblibDump (PObj 0) ''models/clf.pkl'', Inr ''bytes''),
                (JoblibDump (PObj 0) ''models/clf.joblib'', Inr ''bytes''),
                (JoblibDump (PObj 0) ''models/clf.bin'', Inr ''bytes'')],
       stdout = [''[INFO] Scikit-learn model exported as: clf.pkl, clf.joblib, clf.bin'']\<rparr>)"
  by (simp add: export_sklearn_model_def seq_def invoke_def commit_def print_def fmt_def
      sound_lib_def empty_world_def)

lemma xgboost_on_sound_disk:
  "export_model sound_lib (PObj 0) ''XGBOOST'' [(''name'', PStr ''booster'')] empty_world =
     (Inr (),
      \<lparr>dirs = {},
       files = [''models/booster.bin'' \<mapsto> ''bytes'', ''models/booster.json'' \<mapsto> ''bytes''],
       calls = [(SaveModel (PObj 0) ''models/booster.bin'', Inr ''bytes''),
                (SaveModel (PObj 0) ''models/booster.json'', Inr ''bytes'')],
       stdout = [''[INFO] XGBoost model exported as: booster.bin, booster.json'']\<rparr>)"
  by (simp add: export_model_xgboost lower_samples call_model_name_ok name_of_def
      export_xgboost_model_def seq_def invoke_def commit_def print_def fmt_def sound_lib_def
      empty_world_def)


lemma load_on_empty_disk:
  "module_load sound_lib empty_world =
     (Inr (), \<lparr>dirs = {''models''}, files = Map.empty,
        calls = [(Makedirs ''models'', Inr ''bytes'')], stdout = []\<rparr>)"
  by (simp add: module_load_def makedirs_exist_ok_def seq_def invoke_def commit_def
      sound_lib_def empty_world_def)

lemma keras_after_load:
  "dirs (snd (export_model sound_lib (PObj 0) ''keras'' [(''name'', PStr ''net'')]
      \<lparr>dirs = {''models''}, files = Map.empty,
        calls = [(Makedirs ''models'', Inr ''bytes'')], stdout = []\<rparr>))
     = {''models/net_saved_model'', ''models''}"
  by (simp add: export_model_keras lower_tags call_model_name_ok name_of_def
      export_keras_model_def seq_def invoke_def commit_def print_def fmt_def sound_lib_def)


section \<open>The claims\<close>

text \<open>
  C1. The claim: for each of the six tags, in any case variant, \<^verbatim>\<open>export_model\<close> with
  the tag's required extra parameters routes to the matching exporter and writes the
  documented artifacts. For the tag \<^verbatim>\<open>pytorch\<close> the dispatcher passes the sample input
  by position and again inside \<^verbatim>\<open>**kwargs\<close>: with the required \<^verbatim>\<open>sample_input\<close> the
  call ends with \<^verbatim>\<open>TypeError\<close> and nothing is written.
\<close>

theorem pytorch_dispatch_fails:
  "export_model L model ''pytorch'' [(''sample_input'', sample), (''name'', PStr ''net'')] w
     = (Inl TypeError, w)"
  by (simp add: export_model_pytorch lower_tags raise_def)

text \<open>
  C2. With a case variant of the tag \<^verbatim>\<open>pytorch\<close> and no \<^verbatim>\<open>sample_input\<close> among the
  keyword arguments, \<^verbatim>\<open>export_model\<close> raises the \<^verbatim>\<open>ValueError\<close> that names the missing
  argument, and the world is as before: no library call, no file.
\<close>

theorem pytorch_requires_sample_input:
  assumes "case_variant fw ''pytorch''" and "''sample_input'' \<notin> fst ` set kwargs"
  shows "export_model L model fw kwargs w
     = (Inl (ValueError ''PyTorch export requires 'sample_input' argument''), w)"
proof -
  from assms(1) have "lower fw = ''pytorch''" by (simp add: case_variant_iff lower_tags)
  then show ?thesis using assms(2) by (simp add: export_model_pytorch raise_def)
qed

text \<open>
  The tag \<^verbatim>\<open>PyTorch\<close> with only a name.
\<close>

theorem pytorch_requires_sample_input_witness:
  "case_variant ''PyTorch'' ''pytorch''
   \<and> ''sample_input'' \<notin> fst ` set [(''name'', PStr ''net'' :: nat pyval)]
   \<and> export_model sound_lib (PObj 0) ''PyTorch'' [(''name'', PStr ''net'')] empty_world
       = (Inl (ValueError ''PyTorch export requires 'sample_input' argument''), empty_world)"
proof -
  have a: "case_variant ''PyTorch'' ''pytorch''"
    by (simp add: case_variant_iff lower_samples lower_tags)
  have b: "''sample_input'' \<notin> fst ` set [(''name'', PStr ''net'' :: nat pyval)]" by simp
  show ?thesis by (intro conjI a b pytorch_requires_sample_input [OF a b])
qed

text \<open>
  C3. With an ASCII tag that is a case variant of none of the six supported tags,
  \<^verbatim>\<open>export_model\<close> raises the \<^verbatim>\<open>ValueError\<close> "Unsupported framework" that names the tag
  (lowered), and the world is as before: no library call, no file.
\<close>

theorem unsupported_framework_rejected:
  assumes "ascii_only fw" and "\<forall>t \<in> set supported_frameworks. \<not> case_variant fw t"
  shows "export_model L model fw kwargs w
     = (Inl (ValueError (''Unsupported framework: '' @ lower fw)), w)"
  using unsupported_lower [OF assms(2)] by (simp add: export_model_unsupported raise_def)

text \<open>
  The tag \<^verbatim>\<open>foo\<close>.
\<close>

theorem unsupported_framework_rejected_witness:
  "ascii_only ''foo''
   \<and> export_model sound_lib (PObj 0) ''foo'' [] empty_world
     = (Inl (ValueError ''Unsupported framework: foo''), empty_world)"
proof -
  have a: "ascii_only ''foo''" by (simp add: ascii_only_def)
  have b: "\<forall>t \<in> set supported_frameworks. \<not> case_variant ''foo'' t"
    by (simp add: supported_frameworks_def case_variant_iff lower_samples lower_tags)
  from unsupported_framework_rejected [OF a b, of sound_lib "PObj 0" "[]" empty_world] a
  show ?thesis by (simp add: lower_samples)
qed

text \<open>
  C4. The claim: the directory \<^verbatim>\<open>models\<close> exists before an export writes, and it is
  created once, lazily, by a create-if-absent call that does not fail on an existing
  directory. The creation is not lazy: loading the module on an empty disk creates the
  directory, with no export called.
\<close>

theorem models_dir_not_created_lazily:
  "dirs empty_world = {} \<and> dirs (snd (module_load sound_lib empty_world)) = {''models''}
   \<and> \<not> created_lazily sound_lib empty_world"
  by (simp add: created_lazily_def module_load_def makedirs_exist_ok_def seq_def invoke_def
      commit_def sound_lib_def empty_world_def)

text \<open>
  C4, as amended. The directory is created when the module is loaded: a load that returns
  leaves the directory on disk, and loading again changes nothing and makes no call; a
  load that finds the directory returns and changes nothing; and the directory, once
  there, is still there after any call of the dispatcher or of an exporter, so it exists
  whenever an export writes after the load.
\<close>

theorem models_dir_created_at_load:
  "(module_load L w = (Inr (), w') \<longrightarrow> ''models'' \<in> dirs w' \<and> module_load L w' = (Inr (), w'))
   \<and> (''models'' \<in> dirs w \<longrightarrow> module_load L w = (Inr (), w))
   \<and> (''models'' \<in> dirs w \<longrightarrow> ''models'' \<in> dirs (snd (export_model L model fw kwargs w)))
   \<and> (\<forall>E \<in> snd ` set (exporters L model sample name).
         ''models'' \<in> dirs w \<longrightarrow> ''models'' \<in> dirs (snd (E w)))"
proof (intro conjI impI ballI)
  assume a: "module_load L w = (Inr (), w')"
  then show "''models'' \<in> dirs w'" by (rule module_load_creates)
  then show "module_load L w' = (Inr (), w')" by (rule module_load_present)
next
  assume "''models'' \<in> dirs w"
  then show "module_load L w = (Inr (), w)" by (rule module_load_present)
next
  assume m: "''models'' \<in> dirs w"
  have "dirs w \<subseteq> dirs (snd (export_model L model fw kwargs w))"
    using orderly_export_model by (rule orderly_dirs)
  with m show "''models'' \<in> dirs (snd (export_model L model fw kwargs w))" by (rule subsetD [rotated])
next
  fix E assume "E \<in> snd ` set (exporters L model sample name)" and m: "''models'' \<in> dirs w"
  then obtain t where "(t, E) \<in> set (exporters L model sample name)" by auto
  then have "orderly L (documented_artifacts t (fmt L name)) E" by (rule orderly_exporters)
  then have "dirs w \<subseteq> dirs (snd (E w))" by (rule orderly_dirs)
  with m show "''models'' \<in> dirs (snd (E w))" by (rule subsetD [rotated])
qed

text \<open>
  Loading on the empty disk, loading again, then exporting a Keras model, which creates
  the directory of its SavedModel beside the files.
\<close>

theorem models_dir_created_at_load_witness:
  "module_load sound_lib empty_world
     = (Inr (), snd (module_load sound_lib empty_world))
   \<and> ''models'' \<in> dirs (snd (module_load sound_lib empty_world))
   \<and> module_load sound_lib (snd (module_load sound_lib empty_world))
     = (Inr (), snd (module_load sound_lib empty_world))
   \<and> ''models'' \<in> dirs (snd (export_model sound_lib (PObj 0) ''keras''
        [(''name'', PStr ''net'')] (snd (module_load sound_lib empty_world))))
   \<and> dirs (snd (export_model sound_lib (PObj 0) ''keras''
        [(''name'', PStr ''net'')] (snd (module_load sound_lib empty_world))))
     = {''models/net_saved_model'', ''models''}"
proof -
  let ?w1 = "snd (module_load sound_lib empty_world)"
  have a: "module_load sound_lib empty_world = (Inr (), ?w1)"
    by (simp add: load_on_empty_disk)
  from models_dir_created_at_load [of sound_lib empty_world ?w1 "PObj 0" "''keras''"
      "[(''name'', PStr ''net'')]" "PObj 1" "PStr ''net''"] a
  have 1: "''models'' \<in> dirs ?w1" and 2: "module_load sound_lib ?w1 = (Inr (), ?w1)"
    by blast+
  from models_dir_created_at_load [of sound_lib ?w1 ?w1 "PObj 0" "''keras''"
      "[(''name'', PStr ''net'')]" "PObj 1" "PStr ''net''"] 1
  have 3: "''models'' \<in> dirs (snd (export_model sound_lib (PObj 0) ''keras''
      [(''name'', PStr ''net'')] ?w1))" by blast
  have 4: "dirs (snd (export_model sound_lib (PObj 0) ''keras''
      [(''name'', PStr ''net'')] ?w1)) = {''models/net_saved_model'', ''models''}"
    by (simp add: load_on_empty_disk keras_after_load)
  from a 1 2 3 4 show ?thesis by (intro conjI)
qed



text \<open>
  C6. For the dispatcher and for each exporter: every call the run added to the trace is
  a library call with the outcome the library gave it; only the last call can have
  raised (nothing is retried, nothing follows a call that raised); when the last call
  raised \<open>x\<close> the run ends with exactly \<open>x\<close>; and the run ends with a library exception
  only when its last call raised it.
\<close>

theorem library_errors_propagate:
  assumes "act = export_model L model fw kwargs
      \<or> act \<in> snd ` set (exporters L model sample name)"
    and "act w = (r, w')"
  shows "\<exists>new. calls w' = calls w @ new
     \<and> (\<forall>e \<in> set new. \<exists>u. run L (fst e) u = snd e)
     \<and> (\<forall>e \<in> set (butlast new). \<not> isl (snd e))
     \<and> (\<forall>x. new \<noteq> [] \<and> snd (last new) = Inl x \<longrightarrow> r = Inl (LibError x))
     \<and> (\<forall>x. r = Inl (LibError x) \<longrightarrow> new \<noteq> [] \<and> snd (last new) = Inl x)"
proof -
  from orderly_act [OF assms(1)] obtain ps where "orderly L ps act" by blast
  then have "orderly_run L ps w (fst (act w)) (snd (act w))" unfolding orderly_def by (rule spec)
  then have "orderly_run L ps w r w'" by (simp add: assms(2))
  then show ?thesis unfolding orderly_run_def by blast
qed

text \<open>
  The sklearn export on a disk that is full after one file.
\<close>

theorem library_errors_propagate_witness:
  "fst (export_model full_disk_lib (PObj 0) ''sklearn'' [(''name'', PStr ''clf'')] empty_world)
     = Inl (LibError ''disk full'')
   \<and> (\<exists>new. calls (snd (export_model full_disk_lib (PObj 0) ''sklearn''
               [(''name'', PStr ''clf'')] empty_world)) = calls empty_world @ new
        \<and> new \<noteq> [] \<and> snd (last new) = Inl ''disk full'')"
proof -
  let ?act = "export_model full_disk_lib (PObj 0) ''sklearn'' [(''name'', PStr ''clf'')]"
  have a: "?act = export_model full_disk_lib (PObj 0) ''sklearn'' [(''name'', PStr ''clf'')]
      \<or> ?act \<in> snd ` set (exporters full_disk_lib (PObj 0) (PObj 1) (PStr ''clf''))"
    by simp
  have b: "?act empty_world = (fst (?act empty_world), snd (?act empty_world))" by simp
  have r: "fst (?act empty_world) = Inl (LibError ''disk full'')"
    by (simp add: sklearn_on_full_disk)
  from library_errors_propagate [OF a b] r show ?thesis by auto
qed

text \<open>
  C7. For the dispatcher and for each exporter: when the run ends with an exception,
  every artifact written by a call of the run that returned is on disk with the content
  written, and every other path is as before the run.
\<close>

theorem earlier_artifacts_remain:
  assumes "act = export_model L model fw kwargs
      \<or> act \<in> snd ` set (exporters L model sample name)"
    and "act w = (Inl err, w')"
  shows "\<exists>new. calls w' = calls w @ new
     \<and> (\<forall>pa \<in> set (writes new). files w' (fst pa) = Some (snd pa))
     \<and> (\<forall>p. p \<notin> fst ` set (writes new) \<longrightarrow> files w' p = files w p)"
proof -
  from orderly_act [OF assms(1)] obtain ps where ps: "distinct ps" "orderly L ps act" by blast
  from ps(2) have "orderly_run L ps w (fst (act w)) (snd (act w))"
    unfolding orderly_def by (rule spec)
  then have "orderly_run L ps w (Inl err :: 'c error + unit) w'" by (simp add: assms(2))
  then show ?thesis using ps(1) by (rule orderly_run_files)
qed

text \<open>
  The sklearn export on a disk that is full after one file: the first file stays.
\<close>

theorem earlier_artifacts_remain_witness:
  "export_model full_disk_lib (PObj 0) ''sklearn'' [(''name'', PStr ''clf'')] empty_world
     = (Inl (LibError ''disk full''),
        snd (export_model full_disk_lib (PObj 0) ''sklearn'' [(''name'', PStr ''clf'')]
          empty_world))
   \<and> files (snd (export_model full_disk_lib (PObj 0) ''sklearn'' [(''name'', PStr ''clf'')]
          empty_world)) ''models/clf.pkl'' = Some ''bytes''"
proof -
  let ?act = "export_model full_disk_lib (PObj 0) ''sklearn'' [(''name'', PStr ''clf'')]"
  have a: "?act = export_model full_disk_lib (PObj 0) ''sklearn'' [(''name'', PStr ''clf'')]
      \<or> ?act \<in> snd ` set (exporters full_disk_lib (PObj 0) (PObj 1) (PStr ''clf''))"
    by simp
  have b: "?act empty_world = (Inl (LibError ''disk full''), snd (?act empty_world))"
    by (simp add: sklearn_on_full_disk)
  from earlier_artifacts_remain [OF a b] obtain new where
    n: "calls (snd (?act empty_world)) = calls empty_world @ new"
    and k: "\<forall>pa \<in> set (writes new). files (snd (?act empty_world)) (fst pa) = Some (snd pa)"
    by blast
  have "calls empty_world = []" by (simp add: empty_world_def)
  with n have "new = [(JoblibDump (PObj 0) ''models/clf.pkl'', Inr ''bytes''),
      (JoblibDump (PObj 0) ''models/clf.joblib'', Inl ''disk full'')]"
    by (simp add: sklearn_on_full_disk)
  then have "(''models/clf.pkl'', ''bytes'') \<in> set (writes new)" by (simp add: writes_def)
  with k have "files (snd (?act empty_world)) ''models/clf.pkl'' = Some ''bytes''" by force
  with b show ?thesis by simp
qed



text \<open>
  C9. With a case variant of a supported tag other than \<^verbatim>\<open>pytorch\<close> and a keyword
  argument other than \<^verbatim>\<open>name\<close>, \<^verbatim>\<open>export_model\<close> raises \<^verbatim>\<open>TypeError\<close> and the world is
  as before.
\<close>

theorem extra_keyword_is_TypeError:
  assumes "t \<in> {''sklearn'', ''xgboost'', ''lightgbm'', ''catboost'', ''keras''}"
    and "case_variant fw t" and "k \<in> fst ` set kwargs" and "k \<noteq> ''name''"
  shows "export_model L model fw kwargs w = (Inl TypeError, w)"
proof -
  from assms(1,2) have "lower fw = t" by (auto simp add: case_variant_iff lower_tags)
  with assms(1) consider "lower fw = ''sklearn''" | "lower fw = ''xgboost''"
    | "lower fw = ''lightgbm''" | "lower fw = ''catboost''" | "lower fw = ''keras''" by auto
  then show ?thesis
    by cases (simp_all add: call_model_name_extra [OF assms(3,4)] export_model_sklearn export_model_xgboost export_model_lightgbm
        export_model_catboost export_model_keras raise_def)
qed

text \<open>
  The tag \<^verbatim>\<open>Sklearn\<close> with a sample input.
\<close>

theorem extra_keyword_is_TypeError_witness:
  "export_model sound_lib (PObj 0) ''Sklearn'' [(''sample_input'', PObj 1)] empty_world
     = (Inl TypeError, empty_world)"
proof -
  have a: "''sklearn'' \<in> {''sklearn'', ''xgboost'', ''lightgbm'', ''catboost'', ''keras''}"
    by simp
  have b: "case_variant ''Sklearn'' ''sklearn''"
    by (simp add: case_variant_iff lower_samples lower_tags)
  have c: "''sample_input'' \<in> fst ` set [(''sample_input'', PObj 1 :: nat pyval)]" by simp
  have d: "''sample_input'' \<noteq> ''name''" by simp
  show ?thesis by (rule extra_keyword_is_TypeError [OF a b c d])
qed

text \<open>
  C10. For an unsupported ASCII tag the message of the \<^verbatim>\<open>ValueError\<close> is "Unsupported
  framework: " followed by the lower-cased tag: the case variant of the supplied tag that
  has no upper-case letter, which is what the dispatcher's \<open>lower\<close> computes. When the tag
  as supplied is not that string, the message is not the one with the tag as supplied.
\<close>

theorem unsupported_message_lowercased:
  assumes "ascii_only fw" and "\<forall>t \<in> set supported_frameworks. \<not> case_variant fw t"
  shows "\<exists>tag. fst (export_model L model fw kwargs w)
         = Inl (ValueError (''Unsupported framework: '' @ tag))
     \<and> tag = lower fw \<and> case_variant tag fw \<and> no_upper tag
     \<and> (fw \<noteq> tag \<longrightarrow> fst (export_model L model fw kwargs w)
           \<noteq> Inl (ValueError (''Unsupported framework: '' @ fw)))"
  using unsupported_lower [OF assms(2)] case_variant_lower [of fw] no_upper_lower [of fw]
  by (auto simp add: export_model_unsupported raise_def)

text \<open>
  The tag \<^verbatim>\<open>FOO\<close>.
\<close>

theorem unsupported_message_lowercased_witness:
  "ascii_only ''FOO''
   \<and> fst (export_model sound_lib (PObj 0) ''FOO'' [] empty_world)
     = Inl (ValueError ''Unsupported framework: foo'')
   \<and> fst (export_model sound_lib (PObj 0) ''FOO'' [] empty_world)
     \<noteq> Inl (ValueError ''Unsupported framework: FOO'')"
proof -
  have a: "ascii_only ''FOO''" by (simp add: ascii_only_def)
  have b: "\<forall>t \<in> set supported_frameworks. \<not> case_variant ''FOO'' t"
    by (simp add: supported_frameworks_def case_variant_iff lower_samples lower_tags)
  from unsupported_message_lowercased [OF a b, of sound_lib "PObj 0" "[]" empty_world] a
  show ?thesis by (auto simp add: lower_samples)
qed

text \<open>
  The five other frameworks. With a case variant of \<^verbatim>\<open>sklearn\<close>, \<^verbatim>\<open>xgboost\<close>,
  \<^verbatim>\<open>lightgbm\<close>, \<^verbatim>\<open>catboost\<close> or \<^verbatim>\<open>keras\<close> and no keyword argument but \<^verbatim>\<open>name\<close>, the
  dispatcher is the matching exporter applied to the model and the name, and a run that
  returns has written exactly the documented artifacts, in order.
\<close>

theorem five_frameworks_dispatch:
  assumes "t \<in> {''sklearn'', ''xgboost'', ''lightgbm'', ''catboost'', ''keras''}"
    and "case_variant fw t" and "fst ` set kwargs \<subseteq> {''name''}"
  shows "(t, export_model L model fw kwargs) \<in> set (exporters L model sample (name_of kwargs))
     \<and> (\<forall>w w'. export_model L model fw kwargs w = (Inr (), w') \<longrightarrow>
          (\<exists>new. calls w' = calls w @ new
             \<and> map fst (writes new) = documented_artifacts t (fmt L (name_of kwargs))
             \<and> files w' = files w ++ map_of (rev (writes new))))"
proof -
  from assms(1,2) have l: "lower fw = t" by (auto simp add: case_variant_iff lower_tags)
  with assms(1) consider "lower fw = ''sklearn''" | "lower fw = ''xgboost''"
    | "lower fw = ''lightgbm''" | "lower fw = ''catboost''" | "lower fw = ''keras''" by auto
  then have route: "(t, export_model L model fw kwargs)
      \<in> set (exporters L model sample (name_of kwargs))"
    using l
    by cases (simp_all add: call_model_name_ok [OF assms(3)] export_model_sklearn
        export_model_xgboost export_model_lightgbm export_model_catboost export_model_keras
        exporters_def)
  have "\<exists>new. calls w' = calls w @ new
      \<and> map fst (writes new) = documented_artifacts t (fmt L (name_of kwargs))
      \<and> files w' = files w ++ map_of (rev (writes new))"
    if r: "export_model L model fw kwargs w = (Inr (), w')" for w w'
  proof -
    let ?ps = "documented_artifacts t (fmt L (name_of kwargs))"
    have "orderly L ?ps (export_model L model fw kwargs)"
      using orderly_export_model [of L fw kwargs model] by (simp add: l)
    then have "orderly_run L ?ps w (fst (export_model L model fw kwargs w))
        (snd (export_model L model fw kwargs w))" unfolding orderly_def by (rule spec)
    then have o: "orderly_run L ?ps w (Inr () :: 'c error + unit) w'" by (simp add: r)
    have "\<not> isl (Inr () :: 'c error + unit)" by simp
    from orderly_run_returned [OF o this] show ?thesis by blast
  qed
  with route show ?thesis by blast
qed

text \<open>
  The tag \<^verbatim>\<open>XGBOOST\<close> with the name \<^verbatim>\<open>booster\<close>.
\<close>

theorem five_frameworks_dispatch_witness:
  "case_variant ''XGBOOST'' ''xgboost''
   \<and> (''xgboost'', export_model sound_lib (PObj 0) ''XGBOOST'' [(''name'', PStr ''booster'')])
       \<in> set (exporters sound_lib (PObj 0) (PObj 1) (PStr ''booster''))
   \<and> fst (export_model sound_lib (PObj 0) ''XGBOOST'' [(''name'', PStr ''booster'')]
         empty_world) = Inr ()
   \<and> dom (files (snd (export_model sound_lib (PObj 0) ''XGBOOST''
         [(''name'', PStr ''booster'')] empty_world)))
       = {''models/booster.bin'', ''models/booster.json''}"
proof -
  have a: "''xgboost'' \<in> {''sklearn'', ''xgboost'', ''lightgbm'', ''catboost'', ''keras''}"
    by simp
  have b: "case_variant ''XGBOOST'' ''xgboost''"
    by (simp add: case_variant_iff lower_samples lower_tags)
  have c: "fst ` set [(''name'', PStr ''booster'' :: nat pyval)] \<subseteq> {''name''}" by simp
  have n: "name_of [(''name'', PStr ''booster'' :: nat pyval)] = PStr ''booster''"
    by (simp add: name_of_def)
  from five_frameworks_dispatch [OF a b c, of sound_lib "PObj 0" "PObj 1"]
  have "(''xgboost'', export_model sound_lib (PObj 0) ''XGBOOST'' [(''name'', PStr ''booster'')])
       \<in> set (exporters sound_lib (PObj 0) (PObj 1) (PStr ''booster''))"
    unfolding n by blast
  with b show ?thesis by (auto simp add: xgboost_on_sound_disk)
qed

end
